theory Spec2Isabelle
  imports Main "HOL-Library.Word"
begin

section \<open>The ratgdo exporter: data model\<close>

text \<open>
  The exporter (\<^verbatim>\<open>main.go\<close>) polls one JSON endpoint on every request to
  \<^verbatim>\<open>/metrics\<close> and republishes the decoded fields as Prometheus gauges.
  The model follows the source function by function: \<^verbatim>\<open>init\<close>,
  \<^verbatim>\<open>fetchData\<close>, \<^verbatim>\<open>boolToFloat\<close> and \<^verbatim>\<open>metricsHandler\<close>.
  The process-wide metric variables become one record that is passed in and returned.
\<close>

subsection \<open>The decoded status\<close>

text \<open>
  The struct \<^verbatim>\<open>Status\<close>, field by field. \<^verbatim>\<open>int64\<close> is a 64-bit word;
  Go's \<^verbatim>\<open>int\<close> is taken at its width on a 64-bit target.
\<close>

record Status =
  UpTime :: "64 word"
  DeviceName :: string
  Paired :: bool
  FirmwareVersion :: string
  AccessoryID :: string
  LocalIP :: string
  SubnetMask :: string
  GatewayIP :: string
  MacAddress :: string
  WifiSSID :: string
  GDOSecurityType :: string
  GarageDoorState :: string
  GarageLockState :: string
  GarageLightOn :: bool
  GarageMotion :: bool
  GarageObstructed :: bool
  PasswordRequired :: bool
  RebootSeconds :: "64 word"
  FreeHeap :: "64 word"
  MinHeap :: "64 word"
  MinStack :: "64 word"
  CrashCount :: "64 word"
  WifiPhyMode :: "64 word"
  WifiPower :: "64 word"
  TTCseconds :: "64 word"
  MotionTriggers :: "64 word"
  LEDidle :: "64 word"
  LastDoorUpdateAt :: "64 word"
  CheckFlashCRC :: bool

subsection \<open>Gauge values\<close>

text \<open>
  A gauge holds a \<^verbatim>\<open>float64\<close>. Every value this program stores is the
  conversion of an integer or one of the constants 0 and 1, so it is an integer-valued
  \<^verbatim>\<open>float64\<close>, represented here by that integer. The conversion
  \<^verbatim>\<open>float64(x)\<close> of an integer keeps 53 significant bits and rounds what does
  not fit to the nearest representable value, ties to the even significand.
\<close>

type_synonym float64 = int

function ulp_shift :: "int \<Rightarrow> nat" where
  "ulp_shift a = (if a < 2 ^ 53 then 0 else Suc (ulp_shift (a div 2)))"
  by pat_completeness auto
termination
  by (relation "measure nat") auto

declare ulp_shift.simps [simp del]

definition float64_of :: "int \<Rightarrow> float64" where
  "float64_of n =
     (let a = \<bar>n\<bar>;
          e = ulp_shift a;
          q = a div 2 ^ e;
          r = a mod 2 ^ e;
          q' = (if 2 * r > 2 ^ e \<or> (2 * r = 2 ^ e \<and> odd q) then q + 1 else q)
      in sgn n * (q' * 2 ^ e))"

definition boolToFloat :: "bool \<Rightarrow> float64" where
  "boolToFloat b = (if b then 1 else 0)"

subsection \<open>Valid UTF-8\<close>

text \<open>
  A Go string is a sequence of bytes, here a list of \<open>char\<close>.
  \<^verbatim>\<open>utf8.ValidString\<close> accepts the well-formed encodings only: one byte below
  0x80; a lead byte 0xC2 to 0xDF, 0xE0 to 0xEF or 0xF0 to 0xF4 followed by one, two or
  three continuation bytes 0x80 to 0xBF, where the first continuation byte is narrowed
  after 0xE0, 0xED, 0xF0 and 0xF4 so that overlong forms, surrogates and code points
  above 0x10FFFF are refused.
\<close>

definition byte :: "char \<Rightarrow> nat" where
  "byte c = of_char c"

definition in_range :: "nat \<Rightarrow> nat \<Rightarrow> char \<Rightarrow> bool" where
  "in_range lo hi c \<longleftrightarrow> lo \<le> byte c \<and> byte c \<le> hi"

fun ValidString :: "string \<Rightarrow> bool" where
  "ValidString [] = True"
| "ValidString (c # cs) =
     (if byte c < 0x80 then ValidString cs
      else if in_range 0xC2 0xDF c then
        (case cs of
           c1 # rest \<Rightarrow> in_range 0x80 0xBF c1 \<and> ValidString rest
         | _ \<Rightarrow> False)
      else if in_range 0xE0 0xEF c then
        (case cs of
           c1 # c2 # rest \<Rightarrow>
             in_range (if byte c = 0xE0 then 0xA0 else 0x80)
                      (if byte c = 0xED then 0x9F else 0xBF) c1 \<and>
             in_range 0x80 0xBF c2 \<and> ValidString rest
         | _ \<Rightarrow> False)
      else if in_range 0xF0 0xF4 c then
        (case cs of
           c1 # c2 # c3 # rest \<Rightarrow>
             in_range (if byte c = 0xF0 then 0x90 else 0x80)
                      (if byte c = 0xF4 then 0x8F else 0xBF) c1 \<and>
             in_range 0x80 0xBF c2 \<and> in_range 0x80 0xBF c3 \<and> ValidString rest
         | _ \<Rightarrow> False)
      else False)"

subsection \<open>Metric vectors of the client library\<close>

text \<open>
  A metric vector has the label names fixed when it is created and one value for each
  list of label values it has been asked for. \<^verbatim>\<open>WithLabelValues\<close> takes the
  values in the order of the names and panics when their number differs or when one of
  them is not valid UTF-8; \<^verbatim>\<open>With\<close> takes a map from names to values and panics
  likewise, and when a declared name is missing from the map. A panic is the result
  \<open>None\<close>.
\<close>

record 'v MetricVec =
  variableLabels :: "string list"
  metrics :: "string list \<rightharpoonup> 'v"

type_synonym GaugeVec = "float64 MetricVec"
type_synonym CounterVec = "nat MetricVec"

definition NewVec :: "string list \<Rightarrow> 'v MetricVec" where
  "NewVec labelNames = \<lparr>variableLabels = labelNames, metrics = Map.empty\<rparr>"

definition WithLabelValues :: "'v MetricVec \<Rightarrow> string list \<Rightarrow> string list option" where
  "WithLabelValues vec lvs =
     (if length lvs = length (variableLabels vec) \<and> list_all ValidString lvs
      then Some lvs else None)"

definition With :: "'v MetricVec \<Rightarrow> (string \<times> string) list \<Rightarrow> string list option" where
  "With vec labels =
     (if length labels = length (variableLabels vec) \<and> list_all ValidString (map snd labels)
      then those (map (map_of labels) (variableLabels vec)) else None)"

text \<open>
  On the series found, \<^verbatim>\<open>Set\<close> stores a value. A counter series starts at zero
  when it is first asked for, and \<^verbatim>\<open>Inc\<close> adds one; its count is a natural
  number.
\<close>

definition Set_at :: "string list \<Rightarrow> float64 \<Rightarrow> GaugeVec \<Rightarrow> GaugeVec" where
  "Set_at k v vec = vec\<lparr>metrics := (metrics vec)(k \<mapsto> v)\<rparr>"

definition counter_value :: "CounterVec \<Rightarrow> string list \<Rightarrow> nat" where
  "counter_value vec k = (case metrics vec k of None \<Rightarrow> 0 | Some n \<Rightarrow> n)"

definition Create_at :: "string list \<Rightarrow> CounterVec \<Rightarrow> CounterVec" where
  "Create_at k vec = vec\<lparr>metrics := (metrics vec)(k \<mapsto> counter_value vec k)\<rparr>"

definition Inc_at :: "string list \<Rightarrow> CounterVec \<Rightarrow> CounterVec" where
  "Inc_at k vec = vec\<lparr>metrics := (metrics vec)(k \<mapsto> counter_value vec k + 1)\<rparr>"

subsection \<open>The registered metrics\<close>

text \<open>
  The package-level variables of \<^verbatim>\<open>main.go\<close>: twelve gauge vectors and the
  request counter. (\<^verbatim>\<open>jsonAddress\<close> and \<^verbatim>\<open>port\<close> only reach the network
  and the listener; \<^verbatim>\<open>location\<close> is a parameter of the functions below.)
\<close>

record registry =
  upTime :: GaugeVec
  paired :: GaugeVec
  garageLightOn :: GaugeVec
  garageMotion :: GaugeVec
  garageObstructed :: GaugeVec
  passwordRequired :: GaugeVec
  freeHeap :: GaugeVec
  minHeap :: GaugeVec
  minStack :: GaugeVec
  crashCount :: GaugeVec
  garageDoorState :: GaugeVec
  deviceInfo :: GaugeVec
  requestCount :: CounterVec

text \<open>
  \<^verbatim>\<open>init\<close> creates every vector with its label names and asks the counter for
  its four classes, which creates them at zero.
\<close>

definition init :: registry where
  "init =
     \<lparr>upTime = NewVec [''location'', ''accessoryID'', ''deviceName'', ''localIP'', ''macAddress''],
      paired = NewVec [''location'', ''accessoryID'', ''deviceName'', ''localIP'', ''macAddress''],
      garageLightOn = NewVec [''location'', ''accessoryID'', ''deviceName'', ''localIP'', ''macAddress''],
      garageMotion = NewVec [''location'', ''accessoryID'', ''deviceName'', ''localIP'', ''macAddress''],
      garageObstructed = NewVec [''location'', ''accessoryID'', ''deviceName'', ''localIP'', ''macAddress''],
      passwordRequired = NewVec [''location'', ''accessoryID'', ''deviceName'', ''localIP'', ''macAddress''],
      freeHeap = NewVec [''location'', ''accessoryID'', ''deviceName'', ''localIP'', ''macAddress''],
      minHeap = NewVec [''location'', ''accessoryID'', ''deviceName'', ''localIP'', ''macAddress''],
      minStack = NewVec [''location'', ''accessoryID'', ''deviceName'', ''localIP'', ''macAddress''],
      crashCount = NewVec [''location'', ''accessoryID'', ''deviceName'', ''localIP'', ''macAddress''],
      garageDoorState = NewVec [''location'', ''accessoryID'', ''deviceName'', ''localIP'', ''macAddress''],
      deviceInfo = NewVec [''location'', ''firmwareVersion'', ''subnetMask'', ''gatewayIP'',
                           ''wifiSSID'', ''garageLockState'', ''GDOSecurityType''],
      requestCount =
        Create_at [''5xx''] (Create_at [''4xx''] (Create_at [''3xx''] (Create_at [''2xx'']
          (NewVec [''status_code_class'']))))\<rparr>"

section \<open>One scrape\<close>

subsection \<open>What the outside world answers\<close>

text \<open>
  \<^verbatim>\<open>fetchData\<close> makes three calls that can fail: \<^verbatim>\<open>http.Get\<close>,
  \<^verbatim>\<open>ioutil.ReadAll\<close> and \<^verbatim>\<open>json.Unmarshal\<close>. The input of a scrape is
  what each of them answers: no response at all, or a status code with a body that cannot
  be read, or with a body that does not decode, or with a body that decodes to a
  \<^verbatim>\<open>Status\<close>.
\<close>

datatype unmarshal_result = UnmarshalErr | UnmarshalOk Status

datatype readall_result = ReadAllErr | ReadAllOk unmarshal_result

datatype get_result = GetErr | GetOk int readall_result

datatype error = GetError | ReadAllError | UnmarshalError

text \<open>
  \<^verbatim>\<open>fetchData\<close> either returns its pair \<^verbatim>\<open>(int, error)\<close>, where
  \<open>None\<close> is the \<^verbatim>\<open>nil\<close> error, or a library call inside it panics.
\<close>

datatype fetch_return = Return int "error option" | Panic

subsection \<open>\<^verbatim>\<open>fetchData\<close>\<close>

definition set_gauge ::
  "(registry \<Rightarrow> GaugeVec) \<Rightarrow> ((GaugeVec \<Rightarrow> GaugeVec) \<Rightarrow> registry \<Rightarrow> registry) \<Rightarrow>
   string list \<Rightarrow> float64 \<Rightarrow> registry \<Rightarrow> registry option" where
  "set_gauge vec vec_update lvs v r =
     (case WithLabelValues (vec r) lvs of
        None \<Rightarrow> None
      | Some k \<Rightarrow> Some (vec_update (Set_at k v) r))"

definition set_info :: "(string \<times> string) list \<Rightarrow> float64 \<Rightarrow> registry \<Rightarrow> registry option" where
  "set_info labels v r =
     (case With (deviceInfo r) labels of
        None \<Rightarrow> None
      | Some k \<Rightarrow> Some (deviceInfo_update (Set_at k v) r))"

definition deviceLabelValues :: "string \<Rightarrow> Status \<Rightarrow> string list" where
  "deviceLabelValues location status =
     [location, AccessoryID status, DeviceName status, LocalIP status, MacAddress status]"

definition infoLabels :: "string \<Rightarrow> Status \<Rightarrow> (string \<times> string) list" where
  "infoLabels location status =
     [(''location'', location),
      (''firmwareVersion'', FirmwareVersion status),
      (''subnetMask'', SubnetMask status),
      (''gatewayIP'', GatewayIP status),
      (''wifiSSID'', WifiSSID status),
      (''garageLockState'', GarageLockState status),
      (''GDOSecurityType'', GDOSecurityType status)]"

text \<open>
  The statements of \<^verbatim>\<open>fetchData\<close> after a successful decode, in the order of the
  source. Each is a step on the registry that may panic.
\<close>

definition updates :: "string \<Rightarrow> Status \<Rightarrow> (registry \<Rightarrow> registry option) list" where
  "updates location status =
     [set_gauge upTime upTime_update (deviceLabelValues location status)
        (float64_of (sint (UpTime status))),
      set_gauge paired paired_update (deviceLabelValues location status)
        (boolToFloat (Paired status)),
      set_gauge garageLightOn garageLightOn_update (deviceLabelValues location status)
        (boolToFloat (GarageLightOn status)),
      set_gauge garageMotion garageMotion_update (deviceLabelValues location status)
        (boolToFloat (GarageMotion status)),
      set_gauge garageObstructed garageObstructed_update (deviceLabelValues location status)
        (boolToFloat (GarageObstructed status)),
      set_gauge passwordRequired passwordRequired_update (deviceLabelValues location status)
        (boolToFloat (PasswordRequired status)),
      set_gauge freeHeap freeHeap_update (deviceLabelValues location status)
        (float64_of (sint (FreeHeap status))),
      set_gauge minHeap minHeap_update (deviceLabelValues location status)
        (float64_of (sint (MinHeap status))),
      set_gauge minStack minStack_update (deviceLabelValues location status)
        (float64_of (sint (MinStack status))),
      set_gauge crashCount crashCount_update (deviceLabelValues location status)
        (float64_of (sint (CrashCount status))),
      (\<lambda>r. if GarageDoorState status = ''Closed''
           then set_gauge garageDoorState garageDoorState_update
                  (deviceLabelValues location status) 0 r
           else if GarageDoorState status = ''Open''
           then set_gauge garageDoorState garageDoorState_update
                  (deviceLabelValues location status) 1 r
           else Some r),
      set_info (infoLabels location status) 1]"

text \<open>
  Running the steps stops at the first panic and keeps what was written before it; the
  flag says whether all of them ran.
\<close>

fun run :: "(registry \<Rightarrow> registry option) list \<Rightarrow> registry \<Rightarrow> registry \<times> bool" where
  "run [] r = (r, True)"
| "run (step # steps) r =
     (case step r of None \<Rightarrow> (r, False) | Some r' \<Rightarrow> run steps r')"

fun fetchData :: "string \<Rightarrow> get_result \<Rightarrow> registry \<Rightarrow> registry \<times> fetch_return" where
  "fetchData location GetErr r = (r, Return 0 (Some GetError))"
| "fetchData location (GetOk StatusCode ReadAllErr) r = (r, Return 0 (Some ReadAllError))"
| "fetchData location (GetOk StatusCode (ReadAllOk UnmarshalErr)) r =
     (r, Return 0 (Some UnmarshalError))"
| "fetchData location (GetOk StatusCode (ReadAllOk (UnmarshalOk status))) r =
     (case run (updates location status) r of
        (r', True) \<Rightarrow> (r', Return StatusCode None)
      | (r', False) \<Rightarrow> (r', Panic))"

text \<open>The last equation is unfolded on request only; the lemmas below say what it yields.\<close>

declare fetchData.simps(4) [simp del]

subsection \<open>The response writer\<close>

text \<open>
  The \<^verbatim>\<open>http.ResponseWriter\<close>: the status line is fixed by the first
  \<^verbatim>\<open>WriteHeader\<close>, a later one changes nothing, and a write without one sends
  200 first. The body is the list of what was written: a text, or the exposition of the
  registry as the encoder found it.
\<close>

datatype chunk = Text string | Exposition registry

record ResponseWriter =
  wroteHeader :: "int option"
  body :: "chunk list"

definition freshWriter :: ResponseWriter where
  "freshWriter = \<lparr>wroteHeader = None, body = []\<rparr>"

definition WriteHeader :: "int \<Rightarrow> ResponseWriter \<Rightarrow> ResponseWriter" where
  "WriteHeader code w =
     (case wroteHeader w of None \<Rightarrow> w\<lparr>wroteHeader := Some code\<rparr> | Some c \<Rightarrow> w)"

definition Write :: "chunk \<Rightarrow> ResponseWriter \<Rightarrow> ResponseWriter" where
  "Write x w = (let w' = WriteHeader 200 w in w'\<lparr>body := body w' @ [x]\<rparr>)"

definition http_Error :: "string \<Rightarrow> int \<Rightarrow> ResponseWriter \<Rightarrow> ResponseWriter" where
  "http_Error msg code w = Write (Text (msg @ [CHR 0x0A])) (WriteHeader code w)"

definition ServeHTTP :: "registry \<Rightarrow> ResponseWriter \<Rightarrow> ResponseWriter" where
  "ServeHTTP r w = Write (Exposition r) w"

subsection \<open>\<^verbatim>\<open>metricsHandler\<close>\<close>

definition Inc_class :: "string \<Rightarrow> registry \<Rightarrow> registry option" where
  "Inc_class class r =
     (case WithLabelValues (requestCount r) [class] of
        None \<Rightarrow> None
      | Some k \<Rightarrow> Some (requestCount_update (Inc_at k) r))"

text \<open>
  The handler returns the registry it leaves behind and the response it wrote;
  no response when a panic ended it.
\<close>

definition metricsHandler ::
  "string \<Rightarrow> get_result \<Rightarrow> ResponseWriter \<Rightarrow> registry \<Rightarrow> registry \<times> ResponseWriter option" where
  "metricsHandler location upstream w r =
     (case fetchData location upstream r of
        (r1, Panic) \<Rightarrow> (r1, None)
      | (r1, Return statusCode err) \<Rightarrow>
          (let w1 = (if err \<noteq> None
                     then http_Error ''Failed to fetch data'' 500 w else w);
               counted =
                 (if 200 \<le> statusCode \<and> statusCode < 300 then Inc_class ''2xx'' r1
                  else if 300 \<le> statusCode \<and> statusCode < 400 then Inc_class ''3xx'' r1
                  else if 400 \<le> statusCode \<and> statusCode < 500 then Inc_class ''4xx'' r1
                  else if 500 \<le> statusCode then Inc_class ''5xx'' r1
                  else Some r1)
           in case counted of
                None \<Rightarrow> (r1, None)
              | Some r2 \<Rightarrow> (r2, Some (ServeHTTP r2 w1))))"

text \<open>Requests served one after the other, each with a writer of its own.\<close>

fun scrapes :: "string \<Rightarrow> get_result list \<Rightarrow> registry \<Rightarrow> registry" where
  "scrapes location [] r = r"
| "scrapes location (u # us) r =
     scrapes location us (fst (metricsHandler location u freshWriter r))"

section \<open>Vocabulary of the properties\<close>

text \<open>
  The label names of a vector never change after \<^verbatim>\<open>init\<close>. The properties below
  are stated for every registry that has the label names \<^verbatim>\<open>init\<close> gave it,
  whatever its series hold.
\<close>

definition labels_ok :: "registry \<Rightarrow> bool" where
  "labels_ok r \<longleftrightarrow>
     variableLabels (upTime r) = variableLabels (upTime init) \<and>
     variableLabels (paired r) = variableLabels (paired init) \<and>
     variableLabels (garageLightOn r) = variableLabels (garageLightOn init) \<and>
     variableLabels (garageMotion r) = variableLabels (garageMotion init) \<and>
     variableLabels (garageObstructed r) = variableLabels (garageObstructed init) \<and>
     variableLabels (passwordRequired r) = variableLabels (passwordRequired init) \<and>
     variableLabels (freeHeap r) = variableLabels (freeHeap init) \<and>
     variableLabels (minHeap r) = variableLabels (minHeap init) \<and>
     variableLabels (minStack r) = variableLabels (minStack init) \<and>
     variableLabels (crashCount r) = variableLabels (crashCount init) \<and>
     variableLabels (garageDoorState r) = variableLabels (garageDoorState init) \<and>
     variableLabels (deviceInfo r) = variableLabels (deviceInfo init) \<and>
     variableLabels (requestCount r) = variableLabels (requestCount init)"

text \<open>
  The label values a decoded scrape hands to the library: the location flag and ten
  string fields of the snapshot. The JSON decoder only delivers valid UTF-8; the flag is
  whatever the command line gave. The library accepts a scrape when all of them are
  valid.
\<close>

definition labels_valid :: "string \<Rightarrow> Status \<Rightarrow> bool" where
  "labels_valid location status \<longleftrightarrow>
     list_all ValidString (deviceLabelValues location status) \<and>
     list_all ValidString (map snd (infoLabels location status))"

fun accepted :: "string \<Rightarrow> get_result \<Rightarrow> bool" where
  "accepted location (GetOk c (ReadAllOk (UnmarshalOk status))) = labels_valid location status"
| "accepted location u = True"

text \<open>The four classes of the request counter, one bucket's count, and their sum.\<close>

definition classes :: "string list" where
  "classes = [''2xx'', ''3xx'', ''4xx'', ''5xx'']"

definition bucket :: "registry \<Rightarrow> string \<Rightarrow> nat" where
  "bucket r class = counter_value (requestCount r) [class]"

definition total :: "registry \<Rightarrow> nat" where
  "total r = sum_list (map (bucket r) classes)"

text \<open>
  Two ways to sort the answers of the outside world: a status code was obtained (the
  GET returned a response); the body was read and decoded.
\<close>

fun obtained_status :: "get_result \<Rightarrow> bool" where
  "obtained_status GetErr = False"
| "obtained_status (GetOk c b) = True"

fun decoded :: "get_result \<Rightarrow> bool" where
  "decoded (GetOk c (ReadAllOk (UnmarshalOk status))) = True"
| "decoded u = False"

text \<open>
  A scrape writes the door-state series of the label values \<open>k\<close> when its body decodes,
  the door state is one of the two known words, and the snapshot has these label values.
\<close>

fun touches_door :: "string \<Rightarrow> string list \<Rightarrow> get_result \<Rightarrow> bool" where
  "touches_door location k (GetOk c (ReadAllOk (UnmarshalOk status))) =
     ((GarageDoorState status = ''Closed'' \<or> GarageDoorState status = ''Open'') \<and>
      deviceLabelValues location status = k)"
| "touches_door location k u = False"

text \<open>The status line of the response a handler call produced, if it produced one.\<close>

definition responseCode :: "registry \<times> ResponseWriter option \<Rightarrow> int option" where
  "responseCode res = (case snd res of None \<Rightarrow> None | Some w \<Rightarrow> wroteHeader w)"

text \<open>
  \<^verbatim>\<open>var status Status\<close>: the value every field has before the decoder fills it,
  which is also what the body \<^verbatim>\<open>{}\<close> decodes to.
\<close>

definition zeroStatus :: Status where
  "zeroStatus =
     \<lparr>UpTime = 0, DeviceName = [], Paired = False, FirmwareVersion = [], AccessoryID = [],
      LocalIP = [], SubnetMask = [], GatewayIP = [], MacAddress = [], WifiSSID = [],
      GDOSecurityType = [], GarageDoorState = [], GarageLockState = [],
      GarageLightOn = False, GarageMotion = False, GarageObstructed = False,
      PasswordRequired = False, RebootSeconds = 0, FreeHeap = 0, MinHeap = 0, MinStack = 0,
      CrashCount = 0, WifiPhyMode = 0, WifiPower = 0, TTCseconds = 0, MotionTriggers = 0,
      LEDidle = 0, LastDoorUpdateAt = 0, CheckFlashCRC = False\<rparr>"

section \<open>Lemmas about the model\<close>

subsection \<open>The conversion to \<^verbatim>\<open>float64\<close>\<close>

lemma ulp_shift_small: "a < 2 ^ 53 \<Longrightarrow> ulp_shift a = 0"
  by (simp add: ulp_shift.simps)

lemma ulp_shift_range: "2 ^ (52 + e) \<le> a \<Longrightarrow> a < 2 ^ (53 + e) \<Longrightarrow> ulp_shift a = e"
proof (induction e arbitrary: a)
  case 0
  then show ?case by (simp add: ulp_shift_small)
next
  case (Suc e)
  have "(2::int) ^ (52 + Suc e) = 2 * 2 ^ (52 + e)" and "(2::int) ^ (53 + Suc e) = 2 * 2 ^ (53 + e)"
    by (simp_all add: power_add)
  with Suc.prems have "2 * 2 ^ (52 + e) \<le> a" and "a < 2 * 2 ^ (53 + e)"
    by simp_all
  then have lo: "2 ^ (52 + e) \<le> a div 2" and hi: "a div 2 < 2 ^ (53 + e)"
    by presburger+
  have "(2::int) ^ 53 \<le> 2 ^ (52 + Suc e)"
    by (rule power_increasing) simp_all
  with Suc.prems have "\<not> a < 2 ^ 53" by simp
  then show ?case
    by (simp add: ulp_shift.simps [of a] Suc.IH [OF lo hi])
qed

lemma ulp_shift_one: "2 ^ 53 \<le> a \<Longrightarrow> a < 2 ^ 54 \<Longrightarrow> ulp_shift a = Suc 0"
  using ulp_shift_range [of 1 a] by simp

lemma float64_exact: "\<bar>n\<bar> \<le> 2 ^ 53 \<Longrightarrow> float64_of n = n"
proof (cases "\<bar>n\<bar> < 2 ^ 53")
  case True
  then have "ulp_shift \<bar>n\<bar> = 0" by (rule ulp_shift_small)
  then have "float64_of n = sgn n * \<bar>n\<bar>" by (simp add: float64_of_def Let_def)
  then show ?thesis by (simp add: mult_sgn_abs)
next
  case False
  assume "\<bar>n\<bar> \<le> 2 ^ 53"
  with False have a: "\<bar>n\<bar> = 2 ^ 53" by simp
  then have "ulp_shift \<bar>n\<bar> = Suc 0" by (simp add: ulp_shift_one)
  with a have "float64_of n = sgn n * \<bar>n\<bar>" by (simp add: float64_of_def Let_def)
  then show ?thesis by (simp add: mult_sgn_abs)
qed

text \<open>
  Beyond 53 bits: with \<open>e\<close> the number of bits that do not fit, the result is a
  multiple of \<open>2 ^ e\<close> at most half of \<open>2 ^ e\<close> away, and on a tie its
  significand is even.
\<close>

lemma float64_nearest:
  assumes lo: "2 ^ (52 + e) \<le> \<bar>n\<bar>" and hi: "\<bar>n\<bar> < 2 ^ (53 + e)"
  shows "2 ^ e dvd float64_of n"
    and "2 * \<bar>float64_of n - n\<bar> \<le> 2 ^ e"
    and "2 * \<bar>float64_of n - n\<bar> = 2 ^ e \<Longrightarrow> even (float64_of n div 2 ^ e)"
proof -
  define a where "a = \<bar>n\<bar>"
  define q where "q = a div 2 ^ e"
  define r where "r = a mod 2 ^ e"
  define q' where "q' = (if 2 * r > 2 ^ e \<or> (2 * r = 2 ^ e \<and> odd q) then q + 1 else q)"
  have sh: "ulp_shift a = e"
    unfolding a_def using lo hi by (rule ulp_shift_range)
  have f: "float64_of n = sgn n * (q' * 2 ^ e)"
    by (simp add: float64_of_def Let_def sh [unfolded a_def] q'_def q_def r_def a_def)
  have a: "a = q * 2 ^ e + r"
    unfolding q_def r_def by (rule div_mult_mod_eq [symmetric])
  have r: "0 \<le> r" "r < 2 ^ e"
    by (simp_all add: r_def)
  have "(0::int) < 2 ^ (52 + e)" by simp
  with lo have n0: "n \<noteq> 0" by auto
  then have s: "\<bar>sgn n\<bar> = 1" by (simp add: abs_sgn_eq)
  have n: "n = sgn n * a"
    by (simp add: a_def mult_sgn_abs)
  have "float64_of n - n = sgn n * (q' * 2 ^ e - a)"
    by (subst n) (simp add: f algebra_simps)
  then have "\<bar>float64_of n - n\<bar> = \<bar>sgn n\<bar> * \<bar>q' * 2 ^ e - a\<bar>"
    by (simp only: abs_mult)
  then have d: "\<bar>float64_of n - n\<bar> = \<bar>q' * 2 ^ e - a\<bar>"
    by (simp only: s mult_1)
  show "2 ^ e dvd float64_of n"
    by (simp add: f)
  have dv: "float64_of n div 2 ^ e = sgn n * q'"
    by (simp add: f)
  have ev: "even (sgn n * q') \<longleftrightarrow> even q'"
    using n0 by (cases "n < 0") simp_all
  show "2 * \<bar>float64_of n - n\<bar> \<le> 2 ^ e"
    and "2 * \<bar>float64_of n - n\<bar> = 2 ^ e \<Longrightarrow> even (float64_of n div 2 ^ e)"
  proof -
    consider (up) "2 * r > 2 ^ e \<or> (2 * r = 2 ^ e \<and> odd q)"
      | (down) "\<not> (2 * r > 2 ^ e \<or> (2 * r = 2 ^ e \<and> odd q))"
      by blast
    then have "2 * \<bar>float64_of n - n\<bar> \<le> 2 ^ e \<and>
        (2 * \<bar>float64_of n - n\<bar> = 2 ^ e \<longrightarrow> even q')"
    proof cases
      case up
      then have q': "q' = q + 1" by (simp add: q'_def)
      have "q' * 2 ^ e - a = 2 ^ e - r"
        by (simp add: q' a algebra_simps)
      with up r show ?thesis
        by (auto simp add: d q')
    next
      case down
      then have q': "q' = q" by (simp add: q'_def)
      have "q' * 2 ^ e - a = - r"
        by (simp add: q' a)
      with down r show ?thesis
        by (auto simp add: d q')
    qed
    then show "2 * \<bar>float64_of n - n\<bar> \<le> 2 ^ e"
      and "2 * \<bar>float64_of n - n\<bar> = 2 ^ e \<Longrightarrow> even (float64_of n div 2 ^ e)"
      by (simp_all add: dv ev)
  qed
qed

lemma float64_rounds: "float64_of 9007199254740993 = 9007199254740992"
  by (simp add: float64_of_def Let_def ulp_shift_one)

subsection \<open>Label values\<close>

lemma ValidString_classes:
  "ValidString ''2xx''" "ValidString ''3xx''" "ValidString ''4xx''" "ValidString ''5xx''"
  by (simp_all add: byte_def)

lemma ValidString_garage: "ValidString ''garage''"
  by (simp add: byte_def)

lemma ValidString_empty: "ValidString []"
  by simp

lemma invalid_byte: "\<not> ValidString [CHR 0xFF]"
  by (simp add: byte_def in_range_def)

lemma length_deviceLabelValues: "length (deviceLabelValues loc st) = 5"
  by (simp add: deviceLabelValues_def)

lemma length_infoLabels: "length (infoLabels loc st) = 7"
  by (simp add: infoLabels_def)

lemma WithLabelValues_device:
  "length (variableLabels vec) = 5 \<Longrightarrow>
   WithLabelValues vec (deviceLabelValues loc st) =
     (if list_all ValidString (deviceLabelValues loc st)
      then Some (deviceLabelValues loc st) else None)"
  by (simp add: WithLabelValues_def length_deviceLabelValues)

lemma With_info:
  "variableLabels vec =
     [''location'', ''firmwareVersion'', ''subnetMask'', ''gatewayIP'', ''wifiSSID'',
      ''garageLockState'', ''GDOSecurityType''] \<Longrightarrow>
   With vec (infoLabels loc st) =
     (if list_all ValidString (map snd (infoLabels loc st))
      then Some [loc, FirmwareVersion st, SubnetMask st, GatewayIP st, WifiSSID st,
                 GarageLockState st, GDOSecurityType st]
      else None)"
  by (simp add: With_def infoLabels_def)

subsection \<open>The updates of a decoded scrape\<close>

lemmas label_defs = labels_ok_def init_def NewVec_def Create_at_def

lemmas step_defs = updates_def set_gauge_def set_info_def WithLabelValues_device With_info

lemma labels_init: "labels_ok init"
  by (simp add: labels_ok_def)

text \<open>An invalid device label value: the first statement panics, nothing is written.\<close>

lemma run_updates_refused:
  "labels_ok r \<Longrightarrow> \<not> list_all ValidString (deviceLabelValues loc st) \<Longrightarrow>
   run (updates loc st) r = (r, False)"
  by (simp add: label_defs step_defs)

text \<open>
  Valid device label values: the eleven statements on the device gauges run; the info
  gauge is written when its label values are valid too, and otherwise the last statement
  panics.
\<close>

lemma run_updates_ok:
  "labels_ok r \<Longrightarrow> list_all ValidString (deviceLabelValues loc st) \<Longrightarrow>
   snd (run (updates loc st) r) = list_all ValidString (map snd (infoLabels loc st))"
  by (simp add: label_defs step_defs)

lemma run_updates_fields:
  fixes loc st r
  defines "r' \<equiv> fst (run (updates loc st) r)"
    and "k \<equiv> deviceLabelValues loc st"
  assumes "labels_ok r" and "list_all ValidString (deviceLabelValues loc st)"
  shows "upTime r' = Set_at k (float64_of (sint (UpTime st))) (upTime r)"
    and "paired r' = Set_at k (boolToFloat (Paired st)) (paired r)"
    and "garageLightOn r' = Set_at k (boolToFloat (GarageLightOn st)) (garageLightOn r)"
    and "garageMotion r' = Set_at k (boolToFloat (GarageMotion st)) (garageMotion r)"
    and "garageObstructed r' = Set_at k (boolToFloat (GarageObstructed st)) (garageObstructed r)"
    and "passwordRequired r' = Set_at k (boolToFloat (PasswordRequired st)) (passwordRequired r)"
    and "freeHeap r' = Set_at k (float64_of (sint (FreeHeap st))) (freeHeap r)"
    and "minHeap r' = Set_at k (float64_of (sint (MinHeap st))) (minHeap r)"
    and "minStack r' = Set_at k (float64_of (sint (MinStack st))) (minStack r)"
    and "crashCount r' = Set_at k (float64_of (sint (CrashCount st))) (crashCount r)"
    and "garageDoorState r' =
           (if GarageDoorState st = ''Closed'' then Set_at k 0 (garageDoorState r)
            else if GarageDoorState st = ''Open'' then Set_at k 1 (garageDoorState r)
            else garageDoorState r)"
    and "deviceInfo r' =
           (if list_all ValidString (map snd (infoLabels loc st))
            then Set_at [loc, FirmwareVersion st, SubnetMask st, GatewayIP st, WifiSSID st,
                         GarageLockState st, GDOSecurityType st] 1 (deviceInfo r)
            else deviceInfo r)"
    and "requestCount r' = requestCount r"
  using assms(3,4) unfolding r'_def k_def
  by (simp_all add: label_defs step_defs)

lemma run_updates_requestCount:
  "labels_ok r \<Longrightarrow> requestCount (fst (run (updates loc st) r)) = requestCount r"
  by (cases "list_all ValidString (deviceLabelValues loc st)")
     (simp_all add: run_updates_fields run_updates_refused)

lemma run_updates_labels: "labels_ok r \<Longrightarrow> labels_ok (fst (run (updates loc st) r))"
proof (cases "list_all ValidString (deviceLabelValues loc st)")
  case False
  assume "labels_ok r"
  with False show ?thesis by (simp add: run_updates_refused)
next
  case True
  assume ok: "labels_ok r"
  then show ?thesis
    by (simp add: labels_ok_def [of "fst (run (updates loc st) r)"]
        run_updates_fields [OF ok True] Set_at_def)
       (simp add: labels_ok_def)
qed

lemma run_updates_door:
  assumes "labels_ok r"
  shows "garageDoorState (fst (run (updates loc st) r)) = garageDoorState r \<or>
         (GarageDoorState st = ''Closed'' \<or> GarageDoorState st = ''Open'') \<and>
         (\<exists>v. garageDoorState (fst (run (updates loc st) r)) =
                Set_at (deviceLabelValues loc st) v (garageDoorState r))"
proof (cases "list_all ValidString (deviceLabelValues loc st)")
  case False
  with assms show ?thesis by (simp add: run_updates_refused)
next
  case True
  show ?thesis by (auto simp add: run_updates_fields [OF assms True])
qed

subsection \<open>\<^verbatim>\<open>fetchData\<close>\<close>

lemma fetchData_registry:
  "fst (fetchData loc (GetOk c (ReadAllOk (UnmarshalOk st))) r) = fst (run (updates loc st) r)"
  by (cases "run (updates loc st) r") (simp add: fetchData.simps(4) split: bool.split)

lemma fetchData_decoded:
  "labels_ok r \<Longrightarrow> labels_valid loc st \<Longrightarrow>
   fetchData loc (GetOk c (ReadAllOk (UnmarshalOk st))) r =
     (fst (run (updates loc st) r), Return c None)"
  using run_updates_ok [of r loc st]
  by (cases "run (updates loc st) r") (simp add: fetchData.simps(4) labels_valid_def)

lemma fetchData_panics:
  assumes "labels_ok r" and "\<not> labels_valid loc st"
  shows "fetchData loc (GetOk c (ReadAllOk (UnmarshalOk st))) r =
     (fst (run (updates loc st) r), Panic)"
proof (cases "list_all ValidString (deviceLabelValues loc st)")
  case False
  with assms(1) show ?thesis
    by (simp add: fetchData.simps(4) run_updates_refused)
next
  case True
  with assms(2) have "\<not> list_all ValidString (map snd (infoLabels loc st))"
    by (simp add: labels_valid_def)
  with run_updates_ok [OF assms(1) True] show ?thesis
    by (cases "run (updates loc st) r") (simp add: fetchData.simps(4))
qed

lemma fetchData_failed:
  "\<not> decoded u \<Longrightarrow> \<exists>e. fetchData loc u r = (r, Return 0 (Some e))"
  by (cases u rule: decoded.cases) simp_all

subsection \<open>The handler\<close>

lemma handler_failed:
  "\<not> decoded u \<Longrightarrow>
   metricsHandler loc u w r =
     (r, Some (ServeHTTP r (http_Error ''Failed to fetch data'' 500 w)))"
  by (cases u rule: decoded.cases) (simp_all add: metricsHandler_def)

lemma Inc_class_ok:
  "labels_ok r \<Longrightarrow> ValidString class \<Longrightarrow>
   Inc_class class r = Some (requestCount_update (Inc_at [class]) r)"
  by (simp add: Inc_class_def WithLabelValues_def label_defs)

lemma Inc_class_classes:
  assumes "labels_ok r"
  shows "Inc_class ''2xx'' r = Some (requestCount_update (Inc_at [''2xx'']) r)"
    and "Inc_class ''3xx'' r = Some (requestCount_update (Inc_at [''3xx'']) r)"
    and "Inc_class ''4xx'' r = Some (requestCount_update (Inc_at [''4xx'']) r)"
    and "Inc_class ''5xx'' r = Some (requestCount_update (Inc_at [''5xx'']) r)"
  by (rule Inc_class_ok [OF assms ValidString_classes(1)],
      rule Inc_class_ok [OF assms ValidString_classes(2)],
      rule Inc_class_ok [OF assms ValidString_classes(3)],
      rule Inc_class_ok [OF assms ValidString_classes(4)])

lemma handler_decoded:
  assumes "labels_ok r" and "labels_valid loc st"
  shows "metricsHandler loc (GetOk c (ReadAllOk (UnmarshalOk st))) w r =
     (let r1 = fst (run (updates loc st) r);
          r2 = (if 200 \<le> c \<and> c < 300 then requestCount_update (Inc_at [''2xx'']) r1
                else if 300 \<le> c \<and> c < 400 then requestCount_update (Inc_at [''3xx'']) r1
                else if 400 \<le> c \<and> c < 500 then requestCount_update (Inc_at [''4xx'']) r1
                else if 500 \<le> c then requestCount_update (Inc_at [''5xx'']) r1
                else r1)
      in (r2, Some (ServeHTTP r2 w)))"
  using assms
  by (simp add: metricsHandler_def fetchData_decoded Inc_class_classes run_updates_labels
      Let_def)

lemma handler_panics:
  assumes "labels_ok r" and "\<not> labels_valid loc st"
  shows "metricsHandler loc (GetOk c (ReadAllOk (UnmarshalOk st))) w r =
     (fst (run (updates loc st) r), None)"
  by (simp add: metricsHandler_def fetchData_panics [OF assms])

text \<open>
  For instance, with a location flag that is the single byte 0xFF the first statement of
  a decoded scrape panics: nothing is written, nothing is counted, and no response is
  sent.
\<close>

lemma invalid_location_panics:
  "metricsHandler [CHR 0xFF] (GetOk 200 (ReadAllOk (UnmarshalOk zeroStatus))) freshWriter init =
     (init, None)"
proof -
  have bad: "\<not> list_all ValidString (deviceLabelValues [CHR 0xFF] zeroStatus)"
    by (simp add: deviceLabelValues_def byte_def in_range_def)
  then have "\<not> labels_valid [CHR 0xFF] zeroStatus"
    by (simp add: labels_valid_def)
  from handler_panics [OF labels_init this] run_updates_refused [OF labels_init bad]
  show ?thesis by simp
qed

lemma responseCode_fresh_error:
  "responseCode (r, Some (ServeHTTP r' (http_Error msg 500 freshWriter))) = Some 500"
  by (simp add: responseCode_def ServeHTTP_def http_Error_def Write_def WriteHeader_def
      freshWriter_def Let_def)

lemma responseCode_fresh_ok:
  "responseCode (r, Some (ServeHTTP r' freshWriter)) = Some 200"
  by (simp add: responseCode_def ServeHTTP_def Write_def WriteHeader_def freshWriter_def Let_def)

lemma handler_labels: "labels_ok r \<Longrightarrow> labels_ok (fst (metricsHandler loc u w r))"
proof (cases "decoded u")
  case False
  assume "labels_ok r"
  with False show ?thesis by (simp add: handler_failed)
next
  case True
  assume ok: "labels_ok r"
  from True obtain c st where u: "u = GetOk c (ReadAllOk (UnmarshalOk st))"
    by (cases u rule: decoded.cases) simp_all
  show ?thesis
  proof (cases "labels_valid loc st")
    case False
    with ok show ?thesis by (simp add: u handler_panics run_updates_labels)
  next
    case True
    from run_updates_labels [OF ok, of loc st]
    show ?thesis
      by (simp add: u handler_decoded [OF ok True] Let_def labels_ok_def Inc_at_def)
  qed
qed

subsection \<open>The request counter\<close>

lemma bucket_Inc:
  "bucket (requestCount_update (Inc_at [class]) r) k =
     (if k = class then bucket r k + 1 else bucket r k)"
  by (simp add: bucket_def Inc_at_def counter_value_def)

lemma bucket_run_updates:
  "labels_ok r \<Longrightarrow> bucket (fst (run (updates loc st) r)) k = bucket r k"
  by (simp add: bucket_def run_updates_requestCount)

lemma handler_bucket_decoded:
  assumes "labels_ok r" and "labels_valid loc st"
  shows "bucket (fst (metricsHandler loc (GetOk c (ReadAllOk (UnmarshalOk st))) w r)) k =
     (if 200 \<le> c \<and> c < 300 then (if k = ''2xx'' then bucket r k + 1 else bucket r k)
      else if 300 \<le> c \<and> c < 400 then (if k = ''3xx'' then bucket r k + 1 else bucket r k)
      else if 400 \<le> c \<and> c < 500 then (if k = ''4xx'' then bucket r k + 1 else bucket r k)
      else if 500 \<le> c then (if k = ''5xx'' then bucket r k + 1 else bucket r k)
      else bucket r k)"
  using assms
  by (simp add: handler_decoded Let_def bucket_Inc bucket_run_updates)

lemma handler_bucket_mono:
  "labels_ok r \<Longrightarrow> bucket r k \<le> bucket (fst (metricsHandler loc u w r)) k"
proof (cases "decoded u")
  case False
  then show ?thesis by (simp add: handler_failed)
next
  case True
  assume ok: "labels_ok r"
  from True obtain c st where u: "u = GetOk c (ReadAllOk (UnmarshalOk st))"
    by (cases u rule: decoded.cases) simp_all
  show ?thesis
  proof (cases "labels_valid loc st")
    case False
    with ok show ?thesis by (simp add: u handler_panics bucket_run_updates)
  next
    case True
    show ?thesis by (simp add: u handler_bucket_decoded [OF ok True])
  qed
qed

subsection \<open>Sequences of scrapes\<close>

lemma scrapes_append: "scrapes loc (us @ vs) r = scrapes loc vs (scrapes loc us r)"
  by (induction us arbitrary: r) simp_all

lemma scrapes_labels: "labels_ok r \<Longrightarrow> labels_ok (scrapes loc us r)"
  by (induction us arbitrary: r) (simp_all add: handler_labels)

text \<open>So every registry the running process can be in has the label names of \<^verbatim>\<open>init\<close>.\<close>

lemma reachable_labels_ok: "labels_ok (scrapes loc us init)"
  using labels_init by (rule scrapes_labels)

text \<open>No bucket ever decreases, whatever the scrapes answer.\<close>

lemma scrapes_bucket_mono: "labels_ok r \<Longrightarrow> bucket r k \<le> bucket (scrapes loc us r) k"
proof (induction us arbitrary: r)
  case Nil
  then show ?case by simp
next
  case (Cons u us)
  have "bucket r k \<le> bucket (fst (metricsHandler loc u freshWriter r)) k"
    using Cons.prems by (rule handler_bucket_mono)
  also have "\<dots> \<le> bucket (scrapes loc (u # us) r) k"
    using Cons.IH [OF handler_labels [OF Cons.prems, of loc u freshWriter]] by simp
  finally show ?case .
qed

subsection \<open>The door-state series\<close>

lemma handler_door:
  assumes "labels_ok r"
  shows "garageDoorState (fst (metricsHandler loc (GetOk c (ReadAllOk (UnmarshalOk st))) w r)) =
         garageDoorState (fst (run (updates loc st) r))"
proof (cases "labels_valid loc st")
  case False
  with assms show ?thesis by (simp add: handler_panics)
next
  case True
  with assms show ?thesis by (simp add: handler_decoded Let_def)
qed

lemma handler_door_untouched:
  assumes "labels_ok r" and "\<not> touches_door loc k u"
  shows "metrics (garageDoorState (fst (metricsHandler loc u w r))) k =
         metrics (garageDoorState r) k"
proof (cases "decoded u")
  case False
  then show ?thesis by (simp add: handler_failed)
next
  case True
  then obtain c st where u: "u = GetOk c (ReadAllOk (UnmarshalOk st))"
    by (cases u rule: decoded.cases) simp_all
  from run_updates_door [OF assms(1), of loc st] assms(2) show ?thesis
    by (auto simp add: u handler_door [OF assms(1)] Set_at_def)
qed

lemma scrapes_door_untouched:
  "labels_ok r \<Longrightarrow> \<forall>u \<in> set us. \<not> touches_door loc k u \<Longrightarrow>
   metrics (garageDoorState (scrapes loc us r)) k = metrics (garageDoorState r) k"
proof (induction us arbitrary: r)
  case Nil
  then show ?case by simp
next
  case (Cons u us)
  from Cons.prems have "\<not> touches_door loc k u" and rest: "\<forall>u \<in> set us. \<not> touches_door loc k u"
    by simp_all
  with Cons.prems(1) have "metrics (garageDoorState (fst (metricsHandler loc u freshWriter r))) k =
      metrics (garageDoorState r) k"
    by (simp add: handler_door_untouched)
  with Cons.IH [OF handler_labels [OF Cons.prems(1), of loc u freshWriter] rest]
  show ?case by simp
qed

section \<open>The claims\<close>

text \<open>
  C5. A scrape whose GET fails at the transport level leaves the whole registry as it
  was (every gauge series and every counter bucket), and the handler answers 500 with
  the error text before the exposition.
\<close>

theorem transport_failure_scrape:
  "fetchData location GetErr r = (r, Return 0 (Some GetError)) \<and>
   fst (metricsHandler location GetErr freshWriter r) = r \<and>
   (\<forall>class. bucket (fst (metricsHandler location GetErr freshWriter r)) class = bucket r class) \<and>
   responseCode (metricsHandler location GetErr freshWriter r) = Some 500 \<and>
   snd (metricsHandler location GetErr freshWriter r) =
     Some \<lparr>wroteHeader = Some 500,
           body = [Text (''Failed to fetch data'' @ [CHR 0x0A]), Exposition r]\<rparr>"
  by (simp add: handler_failed responseCode_fresh_error)
     (simp add: ServeHTTP_def http_Error_def Write_def WriteHeader_def freshWriter_def Let_def)

text \<open>
  C1, as stated, fails: a body that does not decode makes the handler answer 500.
  Here the upstream answered 200 with such a body.
\<close>

theorem decode_error_answers_500:
  "responseCode (metricsHandler ''garage'' (GetOk 200 (ReadAllOk UnmarshalErr)) freshWriter init)
     = Some 500 \<and>
   responseCode (metricsHandler ''garage'' (GetOk 200 (ReadAllOk UnmarshalErr)) freshWriter init)
     \<noteq> Some 200"
  by (simp add: handler_failed responseCode_fresh_error)

text \<open>
  C1, amended. Every failure of \<^verbatim>\<open>fetchData\<close> is surfaced: the response is 500
  when the GET failed, when the body could not be read and when it did not decode. The
  response is 200 when the body was read and decoded and the library accepts the label
  values.
\<close>

theorem response_code_of_scrape:
  assumes "labels_ok r" and "accepted location u"
  shows "responseCode (metricsHandler location u freshWriter r) =
           Some (if decoded u then 200 else 500) \<and>
         responseCode (metricsHandler location (GetOk c (ReadAllOk UnmarshalErr)) freshWriter r) =
           Some 500"
proof -
  have "responseCode (metricsHandler location u freshWriter r) =
           Some (if decoded u then 200 else 500)"
  proof (cases "decoded u")
    case False
    then show ?thesis by (simp add: handler_failed responseCode_fresh_error)
  next
    case True
    then obtain c' st where u: "u = GetOk c' (ReadAllOk (UnmarshalOk st))"
      by (cases u rule: decoded.cases) simp_all
    with assms(2) have "labels_valid location st" by simp
    then show ?thesis
      by (simp add: u handler_decoded [OF assms(1)] Let_def responseCode_fresh_ok)
  qed
  then show ?thesis by (simp add: handler_failed responseCode_fresh_error)
qed

theorem response_code_of_scrape_witness:
  "labels_ok init \<and>
   accepted ''garage'' (GetOk 200 (ReadAllOk (UnmarshalOk zeroStatus))) \<and>
   responseCode (metricsHandler ''garage'' (GetOk 200 (ReadAllOk (UnmarshalOk zeroStatus)))
     freshWriter init) = Some 200 \<and>
   responseCode (metricsHandler ''garage'' (GetOk 404 (ReadAllOk UnmarshalErr))
     freshWriter init) = Some 500"
proof -
  have ok: "labels_ok init" by (simp add: labels_ok_def)
  have acc: "accepted ''garage'' (GetOk 200 (ReadAllOk (UnmarshalOk zeroStatus)))"
    by (simp add: labels_valid_def deviceLabelValues_def infoLabels_def zeroStatus_def byte_def)
  from response_code_of_scrape [OF ok acc, of 404]
  show ?thesis using ok acc by simp
qed

text \<open>
  C2. The code at an upstream answer of 404 with a body that does not decode: a status
  code was obtained, and no bucket moved; the 4xx bucket is not incremented, because
  \<^verbatim>\<open>fetchData\<close> hands the handler the status code 0.
\<close>

theorem undecodable_404_not_counted:
  "obtained_status (GetOk 404 (ReadAllOk UnmarshalErr)) \<and>
   bucket (fst (metricsHandler ''garage'' (GetOk 404 (ReadAllOk UnmarshalErr)) freshWriter init))
     ''4xx'' = bucket init ''4xx'' \<and>
   bucket (fst (metricsHandler ''garage'' (GetOk 404 (ReadAllOk UnmarshalErr)) freshWriter init))
     ''4xx'' \<noteq> bucket init ''4xx'' + 1 \<and>
   total (fst (metricsHandler ''garage'' (GetOk 404 (ReadAllOk UnmarshalErr)) freshWriter init))
     = total init"
  by (simp add: handler_failed)

text \<open>
  C3. The code on the sequence of one scrape that obtained the status code 404 with a
  body that does not decode: nothing is added to any bucket, so the increments over this
  one scrape sum to 0, not to 1. (That no bucket ever decreases is
  \<open>scrapes_bucket_mono\<close>.)
\<close>

theorem increments_miss_undecoded_scrape:
  "length (filter obtained_status [GetOk 404 (ReadAllOk UnmarshalErr)]) = 1 \<and>
   total (scrapes ''garage'' [GetOk 404 (ReadAllOk UnmarshalErr)] init) = total init \<and>
   total (scrapes ''garage'' [GetOk 404 (ReadAllOk UnmarshalErr)] init) \<noteq>
     total init + length (filter obtained_status [GetOk 404 (ReadAllOk UnmarshalErr)])"
  by (simp add: handler_failed)



text \<open>
  C6, as stated, fails: the up-time 9007199254740993 (2 to the 53, plus 1) is a value
  of the snapshot field, and the gauge reads 9007199254740992 after the scrape.
\<close>

theorem up_time_gauge_rounds:
  "sint (UpTime (zeroStatus\<lparr>UpTime := 9007199254740993\<rparr>)) = 9007199254740993 \<and>
   metrics (upTime (fst (fetchData ''garage''
       (GetOk 200 (ReadAllOk (UnmarshalOk (zeroStatus\<lparr>UpTime := 9007199254740993\<rparr>)))) init)))
     [''garage'', [], [], [], []] = Some 9007199254740992"
proof -
  have valid: "labels_valid ''garage'' (zeroStatus\<lparr>UpTime := 9007199254740993\<rparr>)"
    by (simp add: labels_valid_def deviceLabelValues_def infoLabels_def zeroStatus_def byte_def)
  then have dev: "list_all ValidString
      (deviceLabelValues ''garage'' (zeroStatus\<lparr>UpTime := 9007199254740993\<rparr>))"
    by (simp add: labels_valid_def)
  show ?thesis
    by (simp add: fetchData_decoded [OF labels_init valid]
        run_updates_fields [OF labels_init dev] Set_at_def float64_rounds)
       (simp add: zeroStatus_def deviceLabelValues_def)
qed

text \<open>
  C6, amended. After a successful decode whose label values the library accepts, each
  of the ten gauges holds, under the label values (location, accessoryID, deviceName,
  localIP, macAddress) with the last four from the fresh snapshot, the conversion to
  \<^verbatim>\<open>float64\<close> of the corresponding field: a boolean as 1 for true and 0 for false,
  a numeric field as its own value whenever its magnitude is at most 2 to the 53, and
  beyond that as the nearest representable value, ties to the even significand (with
  \<open>e\<close> bits that do not fit: a multiple of \<open>2 ^ e\<close> at most half of \<open>2 ^ e\<close>
  away).
\<close>

theorem gauges_of_snapshot:
  assumes "labels_ok r" and "labels_valid location status"
    and "r' = fst (fetchData location (GetOk c (ReadAllOk (UnmarshalOk status))) r)"
    and "k = [location, AccessoryID status, DeviceName status, LocalIP status,
              MacAddress status]"
  shows "list_all
           (\<lambda>vec. variableLabels vec =
              [''location'', ''accessoryID'', ''deviceName'', ''localIP'', ''macAddress''])
           [upTime r', paired r', garageLightOn r', garageMotion r', garageObstructed r',
            passwordRequired r', freeHeap r', minHeap r', minStack r', crashCount r'] \<and>
         metrics (upTime r') k = Some (float64_of (sint (UpTime status))) \<and>
         metrics (paired r') k = Some (if Paired status then 1 else 0) \<and>
         metrics (garageLightOn r') k = Some (if GarageLightOn status then 1 else 0) \<and>
         metrics (garageMotion r') k = Some (if GarageMotion status then 1 else 0) \<and>
         metrics (garageObstructed r') k = Some (if GarageObstructed status then 1 else 0) \<and>
         metrics (passwordRequired r') k = Some (if PasswordRequired status then 1 else 0) \<and>
         metrics (freeHeap r') k = Some (float64_of (sint (FreeHeap status))) \<and>
         metrics (minHeap r') k = Some (float64_of (sint (MinHeap status))) \<and>
         metrics (minStack r') k = Some (float64_of (sint (MinStack status))) \<and>
         metrics (crashCount r') k = Some (float64_of (sint (CrashCount status))) \<and>
         (\<forall>n. \<bar>n\<bar> \<le> 2 ^ 53 \<longrightarrow> float64_of n = n) \<and>
         (\<forall>n e. 2 ^ (52 + e) \<le> \<bar>n\<bar> \<and> \<bar>n\<bar> < 2 ^ (53 + e) \<longrightarrow>
            2 ^ e dvd float64_of n \<and> 2 * \<bar>float64_of n - n\<bar> \<le> 2 ^ e \<and>
            (2 * \<bar>float64_of n - n\<bar> = 2 ^ e \<longrightarrow> even (float64_of n div 2 ^ e)))"
proof -
  from assms(2) have dev: "list_all ValidString (deviceLabelValues location status)"
    by (simp add: labels_valid_def)
  have k: "k = deviceLabelValues location status"
    by (simp add: assms(4) deviceLabelValues_def)
  from run_updates_labels [OF assms(1), of location status]
  have names: "list_all
           (\<lambda>vec. variableLabels vec =
              [''location'', ''accessoryID'', ''deviceName'', ''localIP'', ''macAddress''])
           [upTime r', paired r', garageLightOn r', garageMotion r', garageObstructed r',
            passwordRequired r', freeHeap r', minHeap r', minStack r', crashCount r']"
    by (simp add: assms(3) fetchData_registry label_defs)
  have written: "
         metrics (upTime r') k = Some (float64_of (sint (UpTime status))) \<and>
         metrics (paired r') k = Some (if Paired status then 1 else 0) \<and>
         metrics (garageLightOn r') k = Some (if GarageLightOn status then 1 else 0) \<and>
         metrics (garageMotion r') k = Some (if GarageMotion status then 1 else 0) \<and>
         metrics (garageObstructed r') k = Some (if GarageObstructed status then 1 else 0) \<and>
         metrics (passwordRequired r') k = Some (if PasswordRequired status then 1 else 0) \<and>
         metrics (freeHeap r') k = Some (float64_of (sint (FreeHeap status))) \<and>
         metrics (minHeap r') k = Some (float64_of (sint (MinHeap status))) \<and>
         metrics (minStack r') k = Some (float64_of (sint (MinStack status))) \<and>
         metrics (crashCount r') k = Some (float64_of (sint (CrashCount status)))"
    by (simp add: assms(3) k fetchData_registry run_updates_fields [OF assms(1) dev]
        Set_at_def boolToFloat_def)
  have exact: "\<forall>n. \<bar>n\<bar> \<le> 2 ^ 53 \<longrightarrow> float64_of n = n"
    by (simp add: float64_exact)
  have near: "\<forall>n e. 2 ^ (52 + e) \<le> \<bar>n\<bar> \<and> \<bar>n\<bar> < 2 ^ (53 + e) \<longrightarrow>
      2 ^ e dvd float64_of n \<and> 2 * \<bar>float64_of n - n\<bar> \<le> 2 ^ e \<and>
      (2 * \<bar>float64_of n - n\<bar> = 2 ^ e \<longrightarrow> even (float64_of n div 2 ^ e))"
    using float64_nearest by blast
  from conjI [OF names conjI [OF written conjI [OF exact near]]] show ?thesis
    unfolding conj_assoc .
qed

theorem gauges_of_snapshot_witness:
  "labels_ok init \<and>
   labels_valid ''garage'' (zeroStatus\<lparr>GarageDoorState := ''Closed'', GarageLightOn := True, AccessoryID := ''AA'',
          DeviceName := ''Door1'', LocalIP := ''10.0.0.5'', MacAddress := ''AA:BB'',
          UpTime := 120\<rparr>) \<and>
   metrics (upTime (fst (fetchData ''garage'' (GetOk 200 (ReadAllOk (UnmarshalOk
       (zeroStatus\<lparr>GarageDoorState := ''Closed'', GarageLightOn := True, AccessoryID := ''AA'',
          DeviceName := ''Door1'', LocalIP := ''10.0.0.5'', MacAddress := ''AA:BB'',
          UpTime := 120\<rparr>)))) init)))
     [''garage'', ''AA'', ''Door1'', ''10.0.0.5'', ''AA:BB''] = Some 120 \<and>
   metrics (garageLightOn (fst (fetchData ''garage'' (GetOk 200 (ReadAllOk (UnmarshalOk
       (zeroStatus\<lparr>GarageDoorState := ''Closed'', GarageLightOn := True, AccessoryID := ''AA'',
          DeviceName := ''Door1'', LocalIP := ''10.0.0.5'', MacAddress := ''AA:BB'',
          UpTime := 120\<rparr>)))) init)))
     [''garage'', ''AA'', ''Door1'', ''10.0.0.5'', ''AA:BB''] = Some 1 \<and>
   metrics (garageMotion (fst (fetchData ''garage'' (GetOk 200 (ReadAllOk (UnmarshalOk
       (zeroStatus\<lparr>GarageDoorState := ''Closed'', GarageLightOn := True, AccessoryID := ''AA'',
          DeviceName := ''Door1'', LocalIP := ''10.0.0.5'', MacAddress := ''AA:BB'',
          UpTime := 120\<rparr>)))) init)))
     [''garage'', ''AA'', ''Door1'', ''10.0.0.5'', ''AA:BB''] = Some 0 \<and>
   \<bar>120 :: int\<bar> \<le> 2 ^ 53 \<and> float64_of 120 = 120 \<and>
   (2::int) ^ (52 + 1) \<le> \<bar>9007199254740995\<bar> \<and> \<bar>9007199254740995 :: int\<bar> < 2 ^ (53 + 1) \<and>
   float64_of 9007199254740995 = 9007199254740996 \<and>
   2 * \<bar>float64_of 9007199254740995 - 9007199254740995\<bar> = (2::int) ^ 1 \<and>
   even (float64_of 9007199254740995 div 2 ^ 1)"
proof -
  have ok: "labels_ok init" by (simp add: labels_ok_def)
  have valid: "labels_valid ''garage'' (zeroStatus\<lparr>GarageDoorState := ''Closed'', GarageLightOn := True, AccessoryID := ''AA'',
          DeviceName := ''Door1'', LocalIP := ''10.0.0.5'', MacAddress := ''AA:BB'',
          UpTime := 120\<rparr>)"
    by (simp add: labels_valid_def deviceLabelValues_def infoLabels_def zeroStatus_def byte_def)
  have near: "float64_of 9007199254740995 = 9007199254740996"
    by (simp add: float64_of_def Let_def ulp_shift_one)
  from gauges_of_snapshot [where location = "''garage''" and c = 200 and status =
         "zeroStatus\<lparr>GarageDoorState := ''Closed'', GarageLightOn := True, AccessoryID := ''AA'',
          DeviceName := ''Door1'', LocalIP := ''10.0.0.5'', MacAddress := ''AA:BB'',
          UpTime := 120\<rparr>", OF ok valid refl refl]
  show ?thesis using ok valid near
    by (simp add: zeroStatus_def)
qed





text \<open>
  C10. When the door state of a decoded snapshot is neither \<^verbatim>\<open>Closed\<close> nor
  \<^verbatim>\<open>Open\<close>, the scrape leaves the whole door-state vector as it found it. Starting
  from \<^verbatim>\<open>init\<close>, as long as no scrape has written the door-state series of some
  label values, that series does not exist: it is never created with a default value.
\<close>

theorem door_state_series_absent:
  "(labels_ok r \<and> GarageDoorState status \<noteq> ''Closed'' \<and> GarageDoorState status \<noteq> ''Open'' \<longrightarrow>
      garageDoorState (fst (fetchData location (GetOk c (ReadAllOk (UnmarshalOk status))) r)) =
        garageDoorState r \<and>
      garageDoorState
        (fst (metricsHandler location (GetOk c (ReadAllOk (UnmarshalOk status))) w r)) =
        garageDoorState r) \<and>
   ((\<forall>u \<in> set us. \<not> touches_door location k u) \<longrightarrow>
      metrics (garageDoorState (scrapes location us init)) k = None)"
proof -
  have "metrics (garageDoorState init) k = None"
    by (simp add: init_def NewVec_def)
  then have absent: "(\<forall>u \<in> set us. \<not> touches_door location k u) \<longrightarrow>
      metrics (garageDoorState (scrapes location us init)) k = None"
    by (simp add: scrapes_door_untouched [OF labels_init])
  have kept: "garageDoorState (fst (run (updates location status) r)) = garageDoorState r"
    if "labels_ok r" and "GarageDoorState status \<noteq> ''Closed''"
      and "GarageDoorState status \<noteq> ''Open''"
    using run_updates_door [OF that(1), of location status] that(2,3) by simp
  from absent show ?thesis
    by (simp add: fetchData_registry handler_door kept)
qed

theorem door_state_series_absent_witness:
  "labels_ok init \<and>
   garageDoorState (fst (fetchData ''garage''
     (GetOk 200 (ReadAllOk (UnmarshalOk (zeroStatus\<lparr>GarageDoorState := ''Opening''\<rparr>)))) init)) =
     garageDoorState init \<and>
   list_all (\<lambda>u. \<not> touches_door ''garage'' [''garage'', [], [], [], []] u)
     [GetOk 200 (ReadAllOk (UnmarshalOk (zeroStatus\<lparr>GarageDoorState := ''Opening''\<rparr>))),
      GetOk 200 (ReadAllOk (UnmarshalOk (zeroStatus\<lparr>GarageDoorState := ''Closed'',
        AccessoryID := ''AA''\<rparr>))),
      GetErr] \<and>
   metrics (garageDoorState (scrapes ''garage''
       [GetOk 200 (ReadAllOk (UnmarshalOk (zeroStatus\<lparr>GarageDoorState := ''Opening''\<rparr>))),
        GetOk 200 (ReadAllOk (UnmarshalOk (zeroStatus\<lparr>GarageDoorState := ''Closed'',
          AccessoryID := ''AA''\<rparr>))),
        GetErr] init))
     [''garage'', [], [], [], []] = None"
proof -
  have ok: "labels_ok init" by (simp add: labels_ok_def)
  have quiet:
    "list_all (\<lambda>u. \<not> touches_door ''garage'' [''garage'', [], [], [], []] u)
       [GetOk 200 (ReadAllOk (UnmarshalOk (zeroStatus\<lparr>GarageDoorState := ''Opening''\<rparr>))),
        GetOk 200 (ReadAllOk (UnmarshalOk (zeroStatus\<lparr>GarageDoorState := ''Closed'',
          AccessoryID := ''AA''\<rparr>))),
        GetErr]"
    by (simp add: zeroStatus_def deviceLabelValues_def)
  from door_state_series_absent [where r = init and location = "''garage''" and c = 200
         and status = "zeroStatus\<lparr>GarageDoorState := ''Opening''\<rparr>"
         and k = "[''garage'', [], [], [], []]"
         and us = "[GetOk 200 (ReadAllOk (UnmarshalOk (zeroStatus\<lparr>GarageDoorState := ''Opening''\<rparr>))),
               GetOk 200 (ReadAllOk (UnmarshalOk (zeroStatus\<lparr>GarageDoorState := ''Closed'',
                 AccessoryID := ''AA''\<rparr>))),
               GetErr]"]
  show ?thesis using ok quiet by (simp add: zeroStatus_def)
qed

end
